theory Spec2Isabelle
  imports Complex_Main
begin

section \<open>Data model of bezier.h\<close>

text \<open>
  The library of \<^verbatim>\<open>bezier.c\<close> works on two structures, \<^verbatim>\<open>curve_t\<close> (a buffer of
  samples and its recorded length) and \<^verbatim>\<open>spline_t\<close> (a back-reference to the curve it
  was created from, one row of \<^verbatim>\<open>DEGREE+1\<close> coefficients per segment, and two counts).

  Modelling decisions.
  \<^item> A buffer is a list; the recorded length \<^verbatim>\<open>len\<close> is a field of its own, as in the
    source, so a function that reads the field and one that reads the buffer can be told
    apart. An access outside a buffer is undefined behaviour in C and is the error
    \<open>OutOfBounds\<close> here; a failed \<^verbatim>\<open>assert\<close> is \<open>AssertionFailed\<close>.
  \<^item> A pointer is modelled by the object it points to, so the assertions that a pointer
    is not \<^verbatim>\<open>NULL\<close> hold by typing. Two arguments denote two distinct objects.
  \<^item> \<^verbatim>\<open>unsigned int\<close> is \<open>nat\<close> and \<^verbatim>\<open>int\<close> is \<open>int\<close>; values are taken to stay inside
    the 32-bit ranges. The one conversion that leaves the range on a short curve, a
    negative \<^verbatim>\<open>int\<close> stored into an \<^verbatim>\<open>unsigned int\<close> field, is written with its
    wrap-around.
  \<^item> The sample type \<^verbatim>\<open>double\<close> is a type parameter \<open>'a\<close>. Functions that only move
    samples are polymorphic in it; functions that compute ask for the operations they use.
    Theorems about arithmetic identities are stated in exact arithmetic (\<open>real\<close>, or any
    commutative ring): rounding is not modelled. The comparisons of IEEE 754, which are
    exact, are modelled by the type \<open>double\<close> below.
\<close>

definition DEGREE :: nat where
  "DEGREE = 4"

datatype error = AssertionFailed | OutOfBounds | Undefined

record 'a curve_t =
  x :: "'a list"
  len :: nat

record 'a spline_t =
  curve :: "'a curve_t"
  coeff :: "'a list list"
  len :: nat
  num_segs :: nat

text \<open>Conversion of an \<^verbatim>\<open>int\<close> to \<^verbatim>\<open>unsigned int\<close>: a negative value wraps modulo \<open>2^32\<close>.\<close>

definition to_unsigned :: "int \<Rightarrow> nat" where
  "to_unsigned n = (if n < 0 then nat (n mod 2 ^ 32) else nat n)"

text \<open>Sequencing of fallible steps: the first error ends the computation.\<close>

definition and_then :: "error + 'a \<Rightarrow> ('a \<Rightarrow> error + 'b) \<Rightarrow> error + 'b" where
  "and_then m f = (case m of Inl e \<Rightarrow> Inl e | Inr v \<Rightarrow> f v)"

text \<open>
  A counting loop \<^verbatim>\<open>for (i = 0; i < n; i++) body\<close> runs its body on \<open>[0..<n]\<close> in order,
  threading the state the body changes.
\<close>

fun for_loop :: "nat list \<Rightarrow> (nat \<Rightarrow> 's \<Rightarrow> error + 's) \<Rightarrow> 's \<Rightarrow> error + 's" where
  "for_loop [] body s = Inr s"
| "for_loop (i # is) body s = and_then (body i s) (for_loop is body)"

definition read_at :: "'a list \<Rightarrow> nat \<Rightarrow> error + 'a" where
  "read_at xs i = (if i < length xs then Inr (xs ! i) else Inl OutOfBounds)"

definition write_at :: "'a list \<Rightarrow> nat \<Rightarrow> 'a \<Rightarrow> error + 'a list" where
  "write_at xs i v = (if i < length xs then Inr (xs[i := v]) else Inl OutOfBounds)"

section \<open>Construction\<close>

text \<open>\<^verbatim>\<open>create_curve\<close>: \<^verbatim>\<open>calloc\<close> gives \<open>len\<close> zero samples.\<close>

definition create_curve :: "nat \<Rightarrow> ('a::zero) curve_t" where
  "create_curve n = \<lparr>x = replicate n 0, len = n\<rparr>"

text \<open>
  \<^verbatim>\<open>create_spline\<close>: \<^verbatim>\<open>num_segs = curve->len - DEGREE\<close>, one zeroed block of
  \<^verbatim>\<open>num_cpts*num_segs\<close> coefficients, and row \<open>i\<close> is the view of the block that starts at
  \<^verbatim>\<open>i*num_cpts\<close>.
\<close>

definition create_spline :: "('a::zero) curve_t \<Rightarrow> 'a spline_t" where
  "create_spline c =
     (let num_cpts = int DEGREE + 1;
          num_segs = int (curve_t.len c) - int DEGREE;
          num_coeff = num_cpts * num_segs;
          block = replicate (nat num_coeff) 0
      in \<lparr>curve = c,
          coeff = map (\<lambda>i. take (nat num_cpts) (drop (i * nat num_cpts) block)) [0..<nat num_segs],
          len = to_unsigned num_coeff,
          num_segs = to_unsigned num_segs\<rparr>)"

section \<open>Geometry matrix\<close>

text \<open>The assignment \<^verbatim>\<open>rows[i][j] = v\<close> through the row pointer \<^verbatim>\<open>rows[i]\<close>.\<close>

definition write_coeff :: "'a list list \<Rightarrow> nat \<Rightarrow> nat \<Rightarrow> 'a \<Rightarrow> error + 'a list list" where
  "write_coeff rows i j v =
     and_then (read_at rows i) (\<lambda>row.
     and_then (write_at row j v) (\<lambda>row'. write_at rows i row'))"

text \<open>
  \<^verbatim>\<open>gmatrix\<close>: the row count is \<^verbatim>\<open>G->curve->len - DEGREE\<close>; the outer loop carries \<open>i\<close> and
  \<open>k\<close>, the inner loop copies \<^verbatim>\<open>curve->x[j+k]\<close> into \<^verbatim>\<open>G->coeff[i][j]\<close>.
\<close>

definition gmatrix :: "'a spline_t \<Rightarrow> 'a curve_t \<Rightarrow> error + 'a spline_t" where
  "gmatrix G c =
     (let num_segs = int (curve_t.len (curve G)) - int DEGREE in
      and_then
        (for_loop [0..<nat num_segs]
           (\<lambda>i (k, rows).
              and_then
                (for_loop [0..<DEGREE + 1]
                   (\<lambda>j rows. and_then (read_at (x c) (j + k)) (write_coeff rows i j))
                   rows)
                (\<lambda>rows'. Inr (k + 1, rows')))
           (0, coeff G))
        (\<lambda>(k, rows). Inr (G\<lparr>coeff := rows\<rparr>)))"

section \<open>Basis transform\<close>

text \<open>The constant \<^verbatim>\<open>Mcr\<close>, entry by entry as in the source.\<close>

definition Mcr :: "('a::ring_1) list list" where
  "Mcr = [[ 1,  -4,   6, 4, 1],
          [-4,  12, -12, 4, 0],
          [ 6, -12,   6, 0, 0],
          [-4,   4,   0, 0, 0],
          [ 1,   0,   0, 0, 0]]"

text \<open>\<^verbatim>\<open>memset(S, 0, n*sizeof(double))\<close>: the first \<open>n\<close> samples become \<open>0.0\<close>.\<close>

definition memset_zero :: "('a::zero) list \<Rightarrow> nat \<Rightarrow> error + 'a list" where
  "memset_zero S n = (if n \<le> length S then Inr (replicate n 0 @ drop n S) else Inl OutOfBounds)"

text \<open>\<^verbatim>\<open>segment\<close>: clear \<open>S\<close>, then \<^verbatim>\<open>S[i] += Mcr[i][j]*G[j]\<close> for \<open>i\<close> and \<open>j\<close> below \<^verbatim>\<open>DEGREE+1\<close>.\<close>

definition segment :: "('a::ring_1) list \<Rightarrow> 'a list \<Rightarrow> error + 'a list" where
  "segment S G =
     and_then (memset_zero S (DEGREE + 1))
       (for_loop [0..<DEGREE + 1]
          (\<lambda>i. for_loop [0..<DEGREE + 1]
             (\<lambda>j S. and_then (read_at S i) (\<lambda>s.
                     and_then (read_at G j) (\<lambda>g. write_at S i (s + Mcr ! i ! j * g))))))"

text \<open>\<^verbatim>\<open>coefficients\<close>: \<^verbatim>\<open>segment(spline->coeff[i], G->coeff[i])\<close> for \<open>i\<close> below \<^verbatim>\<open>spline->num_segs\<close>.\<close>

definition coefficients :: "('a::ring_1) spline_t \<Rightarrow> 'a spline_t \<Rightarrow> error + 'a spline_t" where
  "coefficients sp G =
     and_then
       (for_loop [0..<num_segs sp]
          (\<lambda>i rows. and_then (read_at rows i) (\<lambda>S.
                     and_then (read_at (coeff G) i) (\<lambda>g.
                     and_then (segment S g) (write_at rows i))))
          (coeff sp))
       (\<lambda>rows. Inr (sp\<lparr>coeff := rows\<rparr>))"

section \<open>Evaluation\<close>

text \<open>
  \<^verbatim>\<open>polynomial\<close>: the assertion \<^verbatim>\<open>t >= 0.0 || t <= 1.0\<close>, then the value of
  \<^verbatim>\<open>coeff[0]*t*t*t + coeff[1]*t*t + coeff[2]*t + coeff[3]\<close>.
\<close>

definition polynomial :: "('a::{zero,one,plus,times,ord}) list \<Rightarrow> 'a \<Rightarrow> error + 'a" where
  "polynomial cf t =
     (if \<not> (t \<ge> 0 \<or> t \<le> 1) then Inl AssertionFailed
      else if \<not> 3 < length cf then Inl OutOfBounds
      else Inr (cf ! 0 * t * t * t + cf ! 1 * t * t + cf ! 2 * t + cf ! 3))"

text \<open>
  \<^verbatim>\<open>spline\<close>: a temporary geometry matrix is created from the curve, filled by \<^verbatim>\<open>gmatrix\<close>
  and consumed by \<^verbatim>\<open>coefficients\<close>; freeing it afterwards leaves the output untouched.
\<close>

definition spline :: "('a::ring_1) curve_t \<Rightarrow> 'a spline_t \<Rightarrow> error + 'a spline_t" where
  "spline c sp = (let G = create_spline c in and_then (gmatrix G c) (coefficients sp))"

text \<open>
  \<^verbatim>\<open>evaluate\<close>: the two assertions, \<^verbatim>\<open>res = solution->len/spline->num_segs\<close>, and the loops
  that store \<^verbatim>\<open>polynomial(spline->coeff[i], (double) j/res)\<close> into \<^verbatim>\<open>solution->x[j+k]\<close>,
  with \<open>k\<close> advanced by \<open>res\<close> after each segment. With no segment, \<^verbatim>\<open>fmod\<close> by zero is NaN,
  whose conversion to \<^verbatim>\<open>int\<close> is undefined, as is the integer division that follows.
  \<open>evaluate_segment\<close> is one pass of the outer loop: the inner loop over \<open>j\<close> and the step of \<open>k\<close>.
\<close>

definition evaluate_segment ::
  "('a::{field,ord}) spline_t \<Rightarrow> nat \<Rightarrow> nat \<Rightarrow> nat \<times> 'a list \<Rightarrow> error + nat \<times> 'a list" where
  "evaluate_segment sp res i =
     (\<lambda>(k, xs).
        and_then
          (for_loop [0..<res]
             (\<lambda>j xs. and_then (read_at (coeff sp) i) (\<lambda>cf.
                     and_then (polynomial cf (of_nat j / of_nat res)) (write_at xs (j + k))))
             xs)
          (\<lambda>xs'. Inr (k + res, xs')))"

definition evaluate :: "('a::{field,ord}) spline_t \<Rightarrow> 'a curve_t \<Rightarrow> error + 'a curve_t" where
  "evaluate sp sol =
     (if \<not> num_segs sp \<le> curve_t.len sol then Inl AssertionFailed
      else if num_segs sp = 0 then Inl Undefined
      else if curve_t.len sol mod num_segs sp \<noteq> 0 then Inl AssertionFailed
      else
        (let res = curve_t.len sol div num_segs sp in
         and_then
           (for_loop [0..<num_segs sp] (evaluate_segment sp res) (0, x sol))
           (\<lambda>(k, xs). Inr (sol\<lparr>x := xs\<rparr>))))"

section \<open>The matrix-vector product of the specification\<close>

text \<open>
  The specification states the basis transform as \<open>S = M \<cdot> G\<close>: entry \<open>i\<close> of the product is
  the sum over \<open>j\<close> of \<open>M[i][j] * G[j]\<close>. This definition follows those words, independently of
  the loops of \<^verbatim>\<open>segment\<close>, and is what \<^verbatim>\<open>segment\<close> is compared with.
\<close>

definition matrix_vector_product :: "('a::ring_1) list list \<Rightarrow> 'a list \<Rightarrow> 'a list" where
  "matrix_vector_product M v = map (\<lambda>row. sum_list (map2 (*) row v)) M"

section \<open>IEEE 754 values and their comparisons\<close>

text \<open>
  A \<^verbatim>\<open>double\<close> is a finite number, an infinity or NaN. The finite values carry their value
  as a real number, and the two zeros, which compare equal, are one value. A comparison of
  two doubles is exact and is false whenever an operand is NaN; \<^verbatim>\<open>t >= 0.0\<close> is \<open>0 \<le> t\<close>.
  Sums and products follow the rules of IEEE 754 for infinities and NaN and are written
  without rounding on finite values; the theorems stated on \<open>double\<close> rest on the
  comparisons only.
\<close>

datatype double = Finite real | PlusInf | MinusInf | NaN

instantiation double :: "{zero,one,plus,times,ord}"
begin

definition zero_double :: double where
  "zero_double = Finite 0"

definition one_double :: double where
  "one_double = Finite 1"

fun plus_double :: "double \<Rightarrow> double \<Rightarrow> double" where
  "plus_double NaN b = NaN"
| "plus_double a NaN = NaN"
| "plus_double PlusInf MinusInf = NaN"
| "plus_double MinusInf PlusInf = NaN"
| "plus_double PlusInf b = PlusInf"
| "plus_double a PlusInf = PlusInf"
| "plus_double MinusInf b = MinusInf"
| "plus_double a MinusInf = MinusInf"
| "plus_double (Finite a) (Finite b) = Finite (a + b)"

fun times_double :: "double \<Rightarrow> double \<Rightarrow> double" where
  "times_double NaN b = NaN"
| "times_double a NaN = NaN"
| "times_double (Finite a) (Finite b) = Finite (a * b)"
| "times_double PlusInf PlusInf = PlusInf"
| "times_double MinusInf MinusInf = PlusInf"
| "times_double PlusInf MinusInf = MinusInf"
| "times_double MinusInf PlusInf = MinusInf"
| "times_double PlusInf (Finite b) = (if b = 0 then NaN else if 0 < b then PlusInf else MinusInf)"
| "times_double MinusInf (Finite b) = (if b = 0 then NaN else if 0 < b then MinusInf else PlusInf)"
| "times_double (Finite a) PlusInf = (if a = 0 then NaN else if 0 < a then PlusInf else MinusInf)"
| "times_double (Finite a) MinusInf = (if a = 0 then NaN else if 0 < a then MinusInf else PlusInf)"

fun less_eq_double :: "double \<Rightarrow> double \<Rightarrow> bool" where
  "less_eq_double NaN b = False"
| "less_eq_double a NaN = False"
| "less_eq_double MinusInf b = True"
| "less_eq_double a PlusInf = True"
| "less_eq_double (Finite a) (Finite b) = (a \<le> b)"
| "less_eq_double PlusInf b = False"
| "less_eq_double a MinusInf = False"

fun less_double :: "double \<Rightarrow> double \<Rightarrow> bool" where
  "less_double NaN b = False"
| "less_double a NaN = False"
| "less_double (Finite a) (Finite b) = (a < b)"
| "less_double MinusInf MinusInf = False"
| "less_double MinusInf b = True"
| "less_double PlusInf b = False"
| "less_double a PlusInf = True"
| "less_double a MinusInf = False"

instance ..

end

section \<open>Loops and buffers\<close>

lemma and_then_simps [simp]:
  "and_then (Inl e) f = Inl e" "and_then (Inr v) f = f v"
  by (simp_all add: and_then_def)

lemma for_loop_append: "for_loop (xs @ ys) body s = and_then (for_loop xs body s) (for_loop ys body)"
proof (induction xs arbitrary: s)
  case Nil
  show ?case by simp
next
  case (Cons i xs)
  show ?case by (cases "body i s") (simp_all add: Cons.IH)
qed

lemma for_loop_Suc: "for_loop [0..<Suc n] body s = and_then (for_loop [0..<n] body s) (body n)"
proof -
  have "for_loop [n] body = body n"
    by (rule ext) (simp add: and_then_def split: sum.splits)
  then show ?thesis by (simp add: for_loop_append)
qed

lemma for_loop_invariant:
  assumes init: "I 0 s"
    and step: "\<And>i s. i < n \<Longrightarrow> I i s \<Longrightarrow> \<exists>s'. body i s = Inr s' \<and> I (Suc i) s'"
  shows "\<exists>s'. for_loop [0..<n] body s = Inr s' \<and> I n s'"
  using step
proof (induction n)
  case 0
  show ?case using init by simp
next
  case (Suc n)
  then obtain s1 where s1: "for_loop [0..<n] body s = Inr s1" "I n s1"
    by (meson less_Suc_eq)
  from Suc.prems [of n s1] s1(2) obtain s2 where "body n s1 = Inr s2" "I (Suc n) s2"
    by auto
  with s1 show ?case by (simp add: for_loop_Suc del: upt_Suc)
qed



lemma nth_take_drop_block:
  "i < n \<Longrightarrow> take w (drop (i * w) (replicate (w * n) (v::'a))) = replicate w v"
proof -
  assume "i < n"
  then have "i * w + w \<le> w * n"
    by (metis Suc_leI mult.commute mult_Suc mult_le_mono2 add.commute)
  then show ?thesis by (simp add: min_def)
qed


lemma to_unsigned_int: "to_unsigned (int n) = n"
  by (simp add: to_unsigned_def)

lemma create_spline_eq:
  assumes "DEGREE \<le> curve_t.len c"
  shows "create_spline c =
    \<lparr>curve = c,
     coeff = replicate (curve_t.len c - DEGREE) (replicate (DEGREE + 1) 0),
     len = (DEGREE + 1) * (curve_t.len c - DEGREE),
     num_segs = curve_t.len c - DEGREE\<rparr>"
proof -
  let ?n = "curve_t.len c - DEGREE"
  have segs: "int (curve_t.len c) - int DEGREE = int ?n"
    using assms by simp
  have cnt: "(int DEGREE + 1) * int ?n = int ((DEGREE + 1) * ?n)"
    by (simp only: of_nat_mult of_nat_add of_nat_1)
  have w: "nat (int DEGREE + 1) = DEGREE + 1"
    by simp
  have rows: "map (\<lambda>i. take (DEGREE + 1) (drop (i * (DEGREE + 1)) (replicate ((DEGREE + 1) * ?n) (0::'a)))) [0..<?n]
      = replicate ?n (replicate (DEGREE + 1) 0)"
  proof -
    have "map (\<lambda>i. take (DEGREE + 1) (drop (i * (DEGREE + 1)) (replicate ((DEGREE + 1) * ?n) (0::'a)))) [0..<?n]
        = map (\<lambda>i. replicate (DEGREE + 1) 0) [0..<?n]"
      by (rule map_cong) (simp_all only: nth_take_drop_block atLeastLessThan_iff set_upt)
    then show ?thesis by (simp add: map_replicate_trivial)
  qed
  show ?thesis
    by (simp only: create_spline_def Let_def segs cnt w nat_int to_unsigned_int rows)
qed




section \<open>Claims about construction and the geometry matrix\<close>



text \<open>
  Claim C5, as amended. The claim states the segment count as \<open>curve.len - (DEGREE + 1)\<close>;
  the source computes \<^verbatim>\<open>curve->len - DEGREE\<close>. For every curve with \<open>curve.len \<ge> DEGREE + 1\<close>,
  \<^verbatim>\<open>create_spline\<close> sets \<open>num_segs = curve.len - DEGREE\<close>, that is \<open>curve.len - 4\<close>.
\<close>

theorem create_spline_num_segs:
  assumes "DEGREE + 1 \<le> curve_t.len c"
  shows "num_segs (create_spline c) = curve_t.len c - DEGREE \<and> DEGREE = 4"
  using assms by (simp add: create_spline_eq) (simp add: DEGREE_def)

theorem create_spline_num_segs_witness:
  "DEGREE + 1 \<le> curve_t.len \<lparr>x = [2, 3, 5, 7, 11 :: real], len = 5\<rparr>
   \<and> num_segs (create_spline \<lparr>x = [2, 3, 5, 7, 11 :: real], len = 5\<rparr>) = 1"
  using create_spline_num_segs [of "\<lparr>x = [2, 3, 5, 7, 11 :: real], len = 5\<rparr>"]
  by (simp add: DEGREE_def)

text \<open>
  The claim as stated fails on the nine-sample curve of the specification's own example:
  the spline has 5 segments, not \<open>9 - (4 + 1) = 4\<close>.
\<close>

theorem create_spline_num_segs_counterexample:
  "num_segs (create_spline \<lparr>x = [0, 1, 2, 3, 4, 5, 6, 7, 8 :: real], len = 9\<rparr>) = 5
   \<and> num_segs (create_spline \<lparr>x = [0, 1, 2, 3, 4, 5, 6, 7, 8 :: real], len = 9\<rparr>)
       \<noteq> curve_t.len \<lparr>x = [0, 1, 2, 3, 4, 5, 6, 7, 8 :: real], len = 9\<rparr> - (DEGREE + 1)"
  by (simp add: create_spline_eq DEGREE_def)





section \<open>The loops of the basis transform\<close>

text \<open>The inner loop of \<^verbatim>\<open>segment\<close>: the running sum kept in \<open>S[i]\<close>.\<close>

lemma segment_inner:
  assumes "i < length S" "w \<le> length G"
  shows "for_loop [0..<w]
           (\<lambda>j S. and_then (read_at S i) (\<lambda>s. and_then (read_at G j) (\<lambda>g. write_at S i (s + r ! j * g)))) S
         = Inr (S[i := foldl (+) (S ! i) (map (\<lambda>j. r ! j * G ! j) [0..<w])])"
proof -
  let ?body = "\<lambda>j S. and_then (read_at S i) (\<lambda>s. and_then (read_at G j) (\<lambda>g. write_at S i (s + r ! j * g)))"
  let ?I = "\<lambda>j T. T = S[i := foldl (+) (S ! i) (map (\<lambda>j. r ! j * G ! j) [0..<j])]"
  have "\<exists>T. for_loop [0..<w] ?body S = Inr T \<and> ?I w T"
  proof (rule for_loop_invariant)
    show "?I 0 S" by simp
  next
    fix j T
    assume "j < w" and "?I j T"
    then show "\<exists>s'. ?body j T = Inr s' \<and> ?I (Suc j) s'"
      using assms by (simp add: read_at_def write_at_def)
  qed
  then show ?thesis by auto
qed

lemma segment_loops:
  assumes "w \<le> length S" "w \<le> length G"
  shows "and_then (memset_zero S w)
           (for_loop [0..<w]
              (\<lambda>i. for_loop [0..<w]
                 (\<lambda>j S. and_then (read_at S i) (\<lambda>s.
                         and_then (read_at G j) (\<lambda>g. write_at S i (s + M ! i ! j * g))))))
         = Inr (map (\<lambda>i. foldl (+) 0 (map (\<lambda>j. M ! i ! j * G ! j) [0..<w])) [0..<w] @ drop w S)"
proof -
  let ?S0 = "replicate w 0 @ drop w S"
  let ?f = "\<lambda>i. foldl (+) 0 (map (\<lambda>j. M ! i ! j * G ! j) [0..<w])"
  let ?inner = "\<lambda>i. for_loop [0..<w]
      (\<lambda>j S. and_then (read_at S i) (\<lambda>s. and_then (read_at G j) (\<lambda>g. write_at S i (s + M ! i ! j * g))))"
  let ?I = "\<lambda>i T. T = map ?f [0..<i] @ drop i ?S0"
  have clear: "memset_zero S w = Inr ?S0"
    using assms(1) by (simp add: memset_zero_def)
  have "\<exists>T. for_loop [0..<w] ?inner ?S0 = Inr T \<and> ?I w T"
  proof (rule for_loop_invariant [where I = ?I])
    show "?I 0 ?S0" by simp
  next
    fix i T
    assume i: "i < w" and T: "?I i T"
    have il: "i < length T"
      using i T assms(1) by simp
    have Ti: "T ! i = 0"
      using i T by (simp add: nth_append)
    have "?inner i T = Inr (T[i := ?f i])"
      using segment_inner [of i T w G "M ! i"] il assms(2) by (simp add: Ti)
    moreover have "T[i := ?f i] = map ?f [0..<Suc i] @ drop (Suc i) ?S0"
    proof -
      have "i < length ?S0"
        using i assms(1) by simp
      then have "drop i ?S0 = ?S0 ! i # drop (Suc i) ?S0"
        by (simp only: Cons_nth_drop_Suc)
      then show ?thesis
        using T by (simp add: list_update_append)
    qed
    ultimately show "\<exists>s'. ?inner i T = Inr s' \<and> ?I (Suc i) s'"
      by simp
  qed
  then show ?thesis
    unfolding clear by auto
qed

lemma segment_closed:
  assumes "DEGREE + 1 \<le> length S" "DEGREE + 1 \<le> length G"
  shows "segment S G =
    Inr (map (\<lambda>i. foldl (+) 0 (map (\<lambda>j. Mcr ! i ! j * G ! j) [0..<DEGREE + 1])) [0..<DEGREE + 1]
         @ drop (DEGREE + 1) S)"
  unfolding segment_def using assms by (rule segment_loops)

lemma list5:
  assumes "length G = DEGREE + 1"
  obtains a b c d e where "G = [a, b, c, d, e]"
  using assms by (auto simp: DEGREE_def length_Suc_conv eval_nat_numeral)

lemma upt_5: "[0..<DEGREE + 1] = [0, 1, 2, 3, 4]"
  by (simp add: DEGREE_def eval_nat_numeral upt_rec)

lemma segment_product:
  assumes "length S = DEGREE + 1" "length G = DEGREE + 1"
  shows "segment S G = Inr (matrix_vector_product Mcr G)"
proof -
  obtain a b c d e where G: "G = [a, b, c, d, e]"
    using assms(2) by (rule list5)
  have "segment S G =
    Inr (map (\<lambda>i. foldl (+) 0 (map (\<lambda>j. Mcr ! i ! j * G ! j) [0..<DEGREE + 1])) [0..<DEGREE + 1])"
    using assms by (simp add: segment_closed)
  also have "\<dots> = Inr (matrix_vector_product Mcr G)"
    unfolding upt_5 by (simp add: G Mcr_def matrix_vector_product_def add.assoc)
  finally show ?thesis .
qed

lemma coefficients_closed:
  assumes n: "n = num_segs sp"
    and rows: "n \<le> length (coeff sp)" "n \<le> length (coeff Gm)"
    and seg: "\<And>i. i < n \<Longrightarrow> segment (coeff sp ! i) (coeff Gm ! i) = Inr (f i)"
  shows "coefficients sp Gm = Inr (sp\<lparr>coeff := map f [0..<n] @ drop n (coeff sp)\<rparr>)"
proof -
  let ?body = "\<lambda>i rows. and_then (read_at rows i) (\<lambda>S.
                     and_then (read_at (coeff Gm) i) (\<lambda>g.
                     and_then (segment S g) (write_at rows i)))"
  let ?I = "\<lambda>i T. T = map f [0..<i] @ drop i (coeff sp)"
  have "\<exists>T. for_loop [0..<n] ?body (coeff sp) = Inr T \<and> ?I n T"
  proof (rule for_loop_invariant)
    show "?I 0 (coeff sp)" by simp
  next
    fix i T
    assume i: "i < n" and T: "?I i T"
    have il: "i < length T" "i < length (coeff Gm)"
      using i T rows by simp_all
    have Ti: "T ! i = coeff sp ! i"
      using i T rows by (simp add: nth_append)
    have "drop i (coeff sp) = coeff sp ! i # drop (Suc i) (coeff sp)"
      using i rows by (simp add: Cons_nth_drop_Suc)
    then have "T[i := f i] = map f [0..<Suc i] @ drop (Suc i) (coeff sp)"
      using T by (simp add: list_update_append)
    then show "\<exists>s'. ?body i T = Inr s' \<and> ?I (Suc i) s'"
      using il Ti seg [OF i] by (simp add: read_at_def write_at_def)
  qed
  then show ?thesis
    unfolding coefficients_def n by auto
qed

section \<open>Claims about the basis transform\<close>

text \<open>
  Claim C1. For every geometry row \<open>G\<close> of \<open>DEGREE + 1 = 5\<close> values and every prior content of
  the output row \<open>S\<close>, \<^verbatim>\<open>segment(S, G)\<close> leaves in \<open>S\<close> the matrix-vector product \<open>M \<cdot> G\<close> for
  the constant matrix \<open>M\<close> written out below; and \<^verbatim>\<open>coefficients(spline, G)\<close> applies
  \<^verbatim>\<open>segment\<close> to every row index below \<open>spline.num_segs\<close>, writing \<open>spline.coeff[i]\<close> from
  \<open>G.coeff[i]\<close> and nothing else.
\<close>

theorem segment_is_matrix_vector_product:
  "(length S = DEGREE + 1 \<and> length G = DEGREE + 1 \<longrightarrow>
      segment S G = Inr (matrix_vector_product
        [[ 1,  -4,   6, 4, 1],
         [-4,  12, -12, 4, 0],
         [ 6, -12,   6, 0, 0],
         [-4,   4,   0, 0, 0],
         [ 1,   0,   0, 0, 0]] G))
   \<and> (num_segs sp \<le> length (coeff sp) \<and> num_segs sp \<le> length (coeff Gm)
        \<and> (\<forall>i < num_segs sp. length (coeff sp ! i) = DEGREE + 1 \<and> length (coeff Gm ! i) = DEGREE + 1) \<longrightarrow>
      (\<exists>rows. coefficients sp Gm = Inr (sp\<lparr>coeff := rows\<rparr>)
         \<and> length rows = length (coeff sp)
         \<and> (\<forall>i < num_segs sp. segment (coeff sp ! i) (coeff Gm ! i) = Inr (rows ! i))
         \<and> (\<forall>i. num_segs sp \<le> i \<and> i < length (coeff sp) \<longrightarrow> rows ! i = coeff sp ! i)))"
proof (intro conjI impI)
  assume "length S = DEGREE + 1 \<and> length G = DEGREE + 1"
  then have "segment S G = Inr (matrix_vector_product Mcr G)"
    by (simp add: segment_product)
  then show "segment S G = Inr (matrix_vector_product
        [[ 1,  -4,   6, 4, 1],
         [-4,  12, -12, 4, 0],
         [ 6, -12,   6, 0, 0],
         [-4,   4,   0, 0, 0],
         [ 1,   0,   0, 0, 0]] G)"
    by (simp only: Mcr_def)
next
  let ?n = "num_segs sp"
  let ?f = "\<lambda>i. matrix_vector_product Mcr (coeff Gm ! i)"
  let ?rows = "map ?f [0..<?n] @ drop ?n (coeff sp)"
  assume wf: "?n \<le> length (coeff sp) \<and> ?n \<le> length (coeff Gm)
        \<and> (\<forall>i < ?n. length (coeff sp ! i) = DEGREE + 1 \<and> length (coeff Gm ! i) = DEGREE + 1)"
  then have seg: "segment (coeff sp ! i) (coeff Gm ! i) = Inr (?f i)" if "i < ?n" for i
    using that by (simp add: segment_product)
  have run: "coefficients sp Gm = Inr (sp\<lparr>coeff := ?rows\<rparr>)"
    using wf seg by (intro coefficients_closed) simp_all
  have len: "length ?rows = length (coeff sp)"
    using wf by simp
  have new: "segment (coeff sp ! i) (coeff Gm ! i) = Inr (?rows ! i)" if "i < ?n" for i
    using that seg by (simp add: nth_append)
  have old: "?rows ! i = coeff sp ! i" if "?n \<le> i" "i < length (coeff sp)" for i
    using that by (simp add: nth_append)
  from run len new old
  show "\<exists>rows. coefficients sp Gm = Inr (sp\<lparr>coeff := rows\<rparr>)
         \<and> length rows = length (coeff sp)
         \<and> (\<forall>i < num_segs sp. segment (coeff sp ! i) (coeff Gm ! i) = Inr (rows ! i))
         \<and> (\<forall>i. num_segs sp \<le> i \<and> i < length (coeff sp) \<longrightarrow> rows ! i = coeff sp ! i)"
    by blast
qed

theorem segment_is_matrix_vector_product_witness:
  "segment [9, 9, 9, 9, 9] [3, 1, 4, 1, 5 :: real] = Inr [32, -44, 30, -8, 3]
   \<and> coefficients
        \<lparr>curve = \<lparr>x = [], len = 0\<rparr>, coeff = [[9, 9, 9, 9, 9], [7, 7, 7, 7, 7], [5, 5, 5, 5, 5 :: real]],
         len = 15, num_segs = 2\<rparr>
        \<lparr>curve = \<lparr>x = [], len = 0\<rparr>, coeff = [[0, 1, 2, 3, 4], [3, 1, 4, 1, 5]], len = 10, num_segs = 2\<rparr>
     = Inr \<lparr>curve = \<lparr>x = [], len = 0\<rparr>, coeff = [[24, 0, 0, 4, 0], [32, -44, 30, -8, 3], [5, 5, 5, 5, 5]],
            len = 15, num_segs = 2\<rparr>"
proof -
  let ?sp = "\<lparr>curve = \<lparr>x = [], len = 0\<rparr>, coeff = [[9, 9, 9, 9, 9], [7, 7, 7, 7, 7], [5, 5, 5, 5, 5 :: real]],
         len = 15, num_segs = 2\<rparr>"
  let ?Gm = "\<lparr>curve = \<lparr>x = [], len = 0\<rparr>, coeff = [[0, 1, 2, 3, 4], [3, 1, 4, 1, 5 :: real]], len = 10, num_segs = 2\<rparr>"
  have s0: "segment [9, 9, 9, 9, 9] [0, 1, 2, 3, 4 :: real] = Inr [24, 0, 0, 4, 0]"
    using segment_is_matrix_vector_product [of "[9, 9, 9, 9, 9]" "[0, 1, 2, 3, 4 :: real]" ?sp ?Gm]
    by (simp add: DEGREE_def matrix_vector_product_def)
  have s1: "segment S [3, 1, 4, 1, 5 :: real] = Inr [32, -44, 30, -8, 3]" if "length S = 5" for S
    using that segment_is_matrix_vector_product [of S "[3, 1, 4, 1, 5 :: real]" ?sp ?Gm]
    by (simp add: DEGREE_def matrix_vector_product_def)
  have wf: "num_segs ?sp \<le> length (coeff ?sp) \<and> num_segs ?sp \<le> length (coeff ?Gm)
        \<and> (\<forall>i < num_segs ?sp. length (coeff ?sp ! i) = DEGREE + 1 \<and> length (coeff ?Gm ! i) = DEGREE + 1)"
    by (simp add: DEGREE_def less_Suc_eq numeral_2_eq_2)
  with segment_is_matrix_vector_product [of "[9, 9, 9, 9, 9]" "[0, 1, 2, 3, 4 :: real]" ?sp ?Gm]
  obtain rows where
    run: "coefficients ?sp ?Gm = Inr (?sp\<lparr>coeff := rows\<rparr>)" and len: "length rows = length (coeff ?sp)"
     and new: "\<And>i. i < num_segs ?sp \<Longrightarrow> segment (coeff ?sp ! i) (coeff ?Gm ! i) = Inr (rows ! i)"
     and old: "\<And>i. num_segs ?sp \<le> i \<and> i < length (coeff ?sp) \<Longrightarrow> rows ! i = coeff ?sp ! i"
    by blast
  have "rows ! 0 = [24, 0, 0, 4, 0]" "rows ! 1 = [32, -44, 30, -8, 3]" "rows ! 2 = [5, 5, 5, 5, 5]"
    using new [of 0] new [of 1] old [of 2] s0 s1 [of "[7, 7, 7, 7, 7]"] by simp_all
  moreover have "rows = [rows ! 0, rows ! 1, rows ! 2]"
    using len by (auto simp: list_eq_iff_nth_eq less_Suc_eq eval_nat_numeral)
  ultimately have "rows = [[24, 0, 0, 4, 0], [32, -44, 30, -8, 3], [5, 5, 5, 5, 5]]"
    by simp
  with run s1 [of "[9, 9, 9, 9, 9]"] show ?thesis by simp
qed



section \<open>The loops of the evaluation\<close>







section \<open>Claims about the evaluation\<close>



text \<open>
  Claim C9, as amended. The claim says the condition \<^verbatim>\<open>t >= 0.0 || t <= 1.0\<close> is true for
  every \<open>t\<close>. On IEEE 754 values it is true for every \<open>t\<close> other than NaN, numbers outside
  \<open>[0, 1]\<close> and the infinities included, so the check rejects no number; for NaN both
  comparisons are false and \<^verbatim>\<open>polynomial\<close> stops at the assertion.
\<close>

theorem polynomial_assertion_fails_only_for_NaN:
  fixes t :: double
  shows "(t \<noteq> NaN \<longrightarrow> (t \<ge> 0 \<or> t \<le> 1) \<and> polynomial cf t \<noteq> Inl AssertionFailed)
       \<and> (t = NaN \<longrightarrow> \<not> (t \<ge> 0 \<or> t \<le> 1) \<and> polynomial cf t = Inl AssertionFailed)"
  by (cases t) (auto simp: polynomial_def zero_double_def one_double_def)

theorem polynomial_assertion_fails_only_for_NaN_witness:
  "Finite 7 \<noteq> NaN
   \<and> ((Finite 7 :: double) \<ge> 0 \<or> (Finite 7 :: double) \<le> 1)
   \<and> polynomial [Finite 2, Finite 3, Finite 5, Finite 7, Finite 11] (Finite 7) \<noteq> Inl AssertionFailed
   \<and> polynomial [Finite 2, Finite 3, Finite 5, Finite 7, Finite 11] MinusInf \<noteq> Inl AssertionFailed"
  using polynomial_assertion_fails_only_for_NaN [of "Finite 7" "[Finite 2, Finite 3, Finite 5, Finite 7, Finite 11]"]
    polynomial_assertion_fails_only_for_NaN [of MinusInf "[Finite 2, Finite 3, Finite 5, Finite 7, Finite 11]"]
  by simp

text \<open>The claim as stated fails for \<open>t = NaN\<close>.\<close>

theorem polynomial_assertion_counterexample:
  "\<not> ((NaN :: double) \<ge> 0 \<or> (NaN :: double) \<le> 1)
   \<and> polynomial [Finite 2, Finite 3, Finite 5, Finite 7, Finite 11] NaN = Inl AssertionFailed"
  by (simp add: polynomial_def zero_double_def one_double_def)



section \<open>The pipeline on a straight line\<close>

text \<open>
  What \<^verbatim>\<open>segment\<close> makes of the straight line \<open>a, a + d, \<dots>, a + 4 d\<close>: \<^verbatim>\<open>polynomial\<close> then
  evaluates \<open>(8 a + 24 d) t^3 + 4 d\<close>, which is not a straight line unless \<open>a = - 3 d\<close>.
\<close>

lemma segment_on_ramp:
  fixes a d :: "'a::comm_ring_1"
  assumes "length S = DEGREE + 1"
  shows "segment S [a, a + d, a + 2 * d, a + 3 * d, a + 4 * d] = Inr [8 * a + 24 * d, 0, 0, 4 * d, a]"
proof -
  have "length [a, a + d, a + 2 * d, a + 3 * d, a + 4 * d] = DEGREE + 1"
    by (simp add: DEGREE_def)
  with assms show ?thesis
    by (simp add: segment_product Mcr_def matrix_vector_product_def algebra_simps)
qed

text \<open>
  Claim C7 says that the pipeline reproduces a straight-line input. On the ramp
  \<open>0, 1, \<dots>, 8\<close> of the specification's example, sampled twice per segment, the source
  produces \<open>4, 7, 4, 8, 4, 9, 4, 10, 4, 11\<close>: every segment starts at 4 and the output is
  not monotone. The matrix \<^verbatim>\<open>Mcr\<close>, announced as the quartic Bezier basis, has \<open>4\<close> where that
  basis has \<open>-4\<close> (row 0, column 3), and \<^verbatim>\<open>polynomial\<close>, announced as quartic, is a cubic
  in the first four coefficients.
\<close>

theorem pipeline_on_ramp:
  "and_then (spline \<lparr>x = [0, 1, 2, 3, 4, 5, 6, 7, 8 :: real], len = 9\<rparr>
                     (create_spline \<lparr>x = [0, 1, 2, 3, 4, 5, 6, 7, 8 :: real], len = 9\<rparr>))
            (\<lambda>sp. evaluate sp (create_curve 10))
   = Inr \<lparr>x = [4, 7, 4, 8, 4, 9, 4, 10, 4, 11], len = 10\<rparr>"
  by code_simp

end
